theory Spec2Isabelle
  imports Complex_Main
begin

section \<open>Data model (backend/models.py)\<close>

datatype JobStatus = PENDING | PROCESSING | COMPLETED | FAILED

datatype RampStyle = SMOOTH | LINEAR | STEPPED

text \<open>
  \<^verbatim>\<open>VideoParams\<close>: the validated parameter object. Integers are Python's unbounded
  integers, \<^verbatim>\<open>chunk_duration\<close> is an optional float (taken here as a real number).
\<close>

record VideoParams =
  start_wpm :: int
  peak_wpm :: int
  ramp_words :: "int option"
  ramp_style :: RampStyle
  chunk_duration :: "real option"
  width :: int
  height :: int
  font_size :: int
  fps :: int
  bg_color :: string
  text_color :: string
  orp_color :: string
  show_wpm :: bool
  preprocess :: bool

text \<open>
  The stored job record: the dictionary that \<^verbatim>\<open>initialize_job\<close> dumps as JSON. The key
  \<^verbatim>\<open>id\<close> is the field \<open>job_id\<close> here. Time stamps are ISO strings.
\<close>

record job_data =
  job_id :: string
  status :: JobStatus
  filename :: string
  upload_path :: string
  params :: VideoParams
  created_at :: string
  started_at :: "string option"
  completed_at :: "string option"
  progress_percent :: int
  current_step :: string
  total_words :: "int option"
  processed_words :: "int option"
  output_files :: "string list"
  error_message :: "string option"
  video_duration_seconds :: "real option"

text \<open>\<^verbatim>\<open>JobResponse\<close>, what the manager hands back to its callers.\<close>

record JobResponse =
  resp_id :: string
  resp_status :: JobStatus
  resp_filename :: string
  resp_params :: VideoParams
  resp_created_at :: string
  resp_started_at :: "string option"
  resp_completed_at :: "string option"
  resp_progress_percent :: int
  resp_current_step :: string
  resp_total_words :: "int option"
  resp_processed_words :: "int option"
  resp_output_files :: "string list"
  resp_error_message :: "string option"
  resp_video_duration_seconds :: "real option"

section \<open>Job manager (backend/services/job_manager.py)\<close>

text \<open>
  The manager keeps no state of its own: everything lives in files. The storage is
  modelled by what the code can observe of it: the job files
  \<^verbatim>\<open>JOBS_DIR/{job_id}.json\<close> (a map from job id to the record), the lock files
  \<^verbatim>\<open>JOBS_DIR/{job_id}.lock\<close> (a set of job ids), the uploaded files (a map from path to
  content), the output directories \<^verbatim>\<open>OUTPUTS_DIR/{job_id}\<close> (a map from job id to the
  file names in the directory) and the number of identifiers drawn so far from the
  random source.
\<close>

record storage =
  jobs :: "string \<rightharpoonup> job_data"
  locks :: "string set"
  uploads :: "string \<rightharpoonup> string"
  outputs :: "string \<rightharpoonup> string list"
  uuid_draws :: nat

text \<open>
  The keyword arguments of \<^verbatim>\<open>update_job(job_id, **updates)\<close>: one constructor per key
  of the record, carrying the new value.
\<close>

datatype field_update =
    Set_id string
  | Set_status JobStatus
  | Set_filename string
  | Set_upload_path string
  | Set_params VideoParams
  | Set_created_at string
  | Set_started_at "string option"
  | Set_completed_at "string option"
  | Set_progress_percent int
  | Set_current_step string
  | Set_total_words "int option"
  | Set_processed_words "int option"
  | Set_output_files "string list"
  | Set_error_message "string option"
  | Set_video_duration_seconds "real option"

fun apply_update :: "field_update \<Rightarrow> job_data \<Rightarrow> job_data" where
  "apply_update (Set_id v) d = d\<lparr>job_id := v\<rparr>"
| "apply_update (Set_status v) d = d\<lparr>status := v\<rparr>"
| "apply_update (Set_filename v) d = d\<lparr>filename := v\<rparr>"
| "apply_update (Set_upload_path v) d = d\<lparr>upload_path := v\<rparr>"
| "apply_update (Set_params v) d = d\<lparr>params := v\<rparr>"
| "apply_update (Set_created_at v) d = d\<lparr>created_at := v\<rparr>"
| "apply_update (Set_started_at v) d = d\<lparr>started_at := v\<rparr>"
| "apply_update (Set_completed_at v) d = d\<lparr>completed_at := v\<rparr>"
| "apply_update (Set_progress_percent v) d = d\<lparr>progress_percent := v\<rparr>"
| "apply_update (Set_current_step v) d = d\<lparr>current_step := v\<rparr>"
| "apply_update (Set_total_words v) d = d\<lparr>total_words := v\<rparr>"
| "apply_update (Set_processed_words v) d = d\<lparr>processed_words := v\<rparr>"
| "apply_update (Set_output_files v) d = d\<lparr>output_files := v\<rparr>"
| "apply_update (Set_error_message v) d = d\<lparr>error_message := v\<rparr>"
| "apply_update (Set_video_duration_seconds v) d = d\<lparr>video_duration_seconds := v\<rparr>"

text \<open>\<^verbatim>\<open>job_data.update(updates)\<close>: the keys are written one after the other.\<close>

definition dict_update :: "field_update list \<Rightarrow> job_data \<Rightarrow> job_data" where
  "dict_update updates d = fold apply_update updates d"

text \<open>
  \<^verbatim>\<open>_to_response\<close>. A time stamp is converted only when the stored value is truthy, so
  an empty string reads as absent.
\<close>

definition truthy_str :: "string option \<Rightarrow> string option" where
  "truthy_str v = (case v of None \<Rightarrow> None | Some s \<Rightarrow> if s = [] then None else Some s)"

definition to_response :: "job_data \<Rightarrow> JobResponse" where
  "to_response d =
     \<lparr>resp_id = job_id d,
      resp_status = status d,
      resp_filename = filename d,
      resp_params = params d,
      resp_created_at = created_at d,
      resp_started_at = truthy_str (started_at d),
      resp_completed_at = truthy_str (completed_at d),
      resp_progress_percent = progress_percent d,
      resp_current_step = current_step d,
      resp_total_words = total_words d,
      resp_processed_words = processed_words d,
      resp_output_files = output_files d,
      resp_error_message = error_message d,
      resp_video_duration_seconds = video_duration_seconds d\<rparr>"

text \<open>
  \<^verbatim>\<open>with FileLock(self._lock_path(job_id))\<close>: in a sequential run, taking and releasing
  the lock leaves the lock file behind.
\<close>

definition with_lock :: "string \<Rightarrow> storage \<Rightarrow> storage" where
  "with_lock jid st = st\<lparr>locks := insert jid (locks st)\<rparr>"

text \<open>
  \<^verbatim>\<open>create_job\<close>: a new identifier, the first 8 characters of a random UUID. The random
  source is the parameter \<open>uuid4\<close>, indexed by the number of draws made so far.
\<close>

definition create_job :: "(nat \<Rightarrow> string) \<Rightarrow> storage \<Rightarrow> string \<times> storage" where
  "create_job uuid4 st =
     (take 8 (uuid4 (uuid_draws st)), st\<lparr>uuid_draws := Suc (uuid_draws st)\<rparr>)"

text \<open>\<^verbatim>\<open>initialize_job\<close>; \<open>now\<close> is the value of \<^verbatim>\<open>datetime.utcnow().isoformat()\<close>.\<close>

definition initialize_job ::
  "string \<Rightarrow> string \<Rightarrow> string \<Rightarrow> VideoParams \<Rightarrow> string \<Rightarrow> storage \<Rightarrow> JobResponse \<times> storage" where
  "initialize_job jid fname upath ps now st =
     (let d = \<lparr>job_id = jid,
                status = PENDING,
                filename = fname,
                upload_path = upath,
                params = ps,
                created_at = now,
                started_at = None,
                completed_at = None,
                progress_percent = 0,
                current_step = ''Queued'',
                total_words = None,
                processed_words = None,
                output_files = [],
                error_message = None,
                video_duration_seconds = None\<rparr>;
          st' = (with_lock jid st)\<lparr>jobs := (jobs st)(jid \<mapsto> d)\<rparr>
      in (to_response d, st'))"

definition get_job :: "string \<Rightarrow> storage \<Rightarrow> JobResponse option \<times> storage" where
  "get_job jid st =
     (case jobs st jid of
        None \<Rightarrow> (None, st)
      | Some d \<Rightarrow> (Some (to_response d), with_lock jid st))"

definition get_job_data :: "string \<Rightarrow> storage \<Rightarrow> job_data option \<times> storage" where
  "get_job_data jid st =
     (case jobs st jid of
        None \<Rightarrow> (None, st)
      | Some d \<Rightarrow> (Some d, with_lock jid st))"

definition update_job ::
  "string \<Rightarrow> field_update list \<Rightarrow> storage \<Rightarrow> JobResponse option \<times> storage" where
  "update_job jid updates st =
     (case jobs st jid of
        None \<Rightarrow> (None, st)
      | Some d \<Rightarrow>
          (let d' = dict_update updates d;
               st' = (with_lock jid st)\<lparr>jobs := (jobs st)(jid \<mapsto> d')\<rparr>
           in (Some (to_response d'), st')))"

text \<open>
  \<^verbatim>\<open>delete_job\<close>: the upload, the output directory, the job file and the lock file go.
\<close>

definition delete_job :: "string \<Rightarrow> storage \<Rightarrow> bool \<times> storage" where
  "delete_job jid st =
     (case jobs st jid of
        None \<Rightarrow> (False, st)
      | Some d \<Rightarrow>
          (True,
           st\<lparr>uploads := (uploads st)(upload_path d := None),
              outputs := (outputs st)(jid := None),
              jobs := (jobs st)(jid := None),
              locks := locks st - {jid}\<rparr>))"

section \<open>Text processing and ORP (speedreading.py)\<close>

text \<open>
  Python strings are sequences of code points, and \<^verbatim>\<open>str.isspace\<close>, \<^verbatim>\<open>str.isalnum\<close> and
  the regular expression class \<^verbatim>\<open>\s\<close> consult the Unicode tables. The functions below
  take the classifier as a parameter (\<open>sp\<close> for white space, \<open>an\<close> for alphanumeric),
  so what is proved holds for every classification; \<open>ascii_isspace\<close> and \<open>ascii_isalnum\<close>
  are the classifiers of ASCII text.
\<close>

definition ascii_isspace :: "char \<Rightarrow> bool" where
  "ascii_isspace c = (let n = (of_char c :: nat) in (9 \<le> n \<and> n \<le> 13) \<or> (28 \<le> n \<and> n \<le> 32))"

definition ascii_isalnum :: "char \<Rightarrow> bool" where
  "ascii_isalnum c =
     (let n = (of_char c :: nat)
      in (48 \<le> n \<and> n \<le> 57) \<or> (65 \<le> n \<and> n \<le> 90) \<or> (97 \<le> n \<and> n \<le> 122))"

datatype py_error =
    ValueError string
  | ZeroDivisionError
  | IndexError
  | HTTPException int string

text \<open>
  \<^verbatim>\<open>re.sub(r'\s+', ' ', text)\<close>: every maximal run of white space becomes one space;
  \<open>in_run\<close> tells that the previous character was white space.
\<close>

fun collapse_run :: "(char \<Rightarrow> bool) \<Rightarrow> bool \<Rightarrow> string \<Rightarrow> string" where
  "collapse_run sp in_run [] = []"
| "collapse_run sp in_run (c # cs) =
     (if sp c then (if in_run then collapse_run sp True cs
                    else CHR '' '' # collapse_run sp True cs)
      else c # collapse_run sp False cs)"

definition collapse_ws :: "(char \<Rightarrow> bool) \<Rightarrow> string \<Rightarrow> string" where
  "collapse_ws sp text = collapse_run sp False text"

text \<open>
  \<^verbatim>\<open>re.sub(r'\n{3,}', '\n\n', text)\<close>: a run of three or more newlines becomes two;
  \<open>n\<close> counts the newlines of the current run already read.
\<close>

fun squeeze_run :: "nat \<Rightarrow> string \<Rightarrow> string" where
  "squeeze_run n [] = []"
| "squeeze_run n (c # cs) =
     (if c = CHR 0x0A then (if 2 \<le> n then squeeze_run (Suc n) cs
                            else c # squeeze_run (Suc n) cs)
      else c # squeeze_run 0 cs)"

definition squeeze_newlines :: "string \<Rightarrow> string" where
  "squeeze_newlines text = squeeze_run 0 text"

text \<open>\<^verbatim>\<open>str.strip()\<close>.\<close>

definition strip :: "(char \<Rightarrow> bool) \<Rightarrow> string \<Rightarrow> string" where
  "strip sp s = rev (dropWhile sp (rev (dropWhile sp s)))"

definition clean_text :: "(char \<Rightarrow> bool) \<Rightarrow> string \<Rightarrow> string" where
  "clean_text sp text = strip sp (squeeze_newlines (collapse_ws sp text))"

text \<open>
  \<^verbatim>\<open>str.split()\<close> with no argument: the maximal runs of characters that are not white
  space, in order. \<open>cur\<close> is the word being read.
\<close>

fun split_acc :: "(char \<Rightarrow> bool) \<Rightarrow> string \<Rightarrow> string \<Rightarrow> string list" where
  "split_acc sp cur [] = (if cur = [] then [] else [cur])"
| "split_acc sp cur (c # cs) =
     (if sp c then (if cur = [] then split_acc sp [] cs else cur # split_acc sp [] cs)
      else split_acc sp (cur @ [c]) cs)"

definition py_split :: "(char \<Rightarrow> bool) \<Rightarrow> string \<Rightarrow> string list" where
  "py_split sp s = split_acc sp [] s"

definition tokenize_text :: "(char \<Rightarrow> bool) \<Rightarrow> string \<Rightarrow> string list" where
  "tokenize_text sp text = filter (\<lambda>w. strip sp w \<noteq> []) (py_split sp text)"

record WordFrame =
  word :: string
  orp_index :: int
  duration :: real

definition calculate_orp :: "string \<Rightarrow> int" where
  "calculate_orp w =
     (let n = length w
      in if n \<le> 1 then 0
         else if n \<le> 5 then 1
         else if n \<le> 9 then 2
         else if n \<le> 13 then 3
         else 4)"

text \<open>
  The body of the loop of \<^verbatim>\<open>generate_speed_reading_video\<close> up to the construction of
  the \<^verbatim>\<open>WordFrame\<close>. Floats are taken as real numbers; \<^verbatim>\<open>60.0 / wpm\<close> raises
  \<^verbatim>\<open>ZeroDivisionError\<close> for \<open>wpm = 0\<close>.
\<close>

definition make_word_frame :: "(char \<Rightarrow> bool) \<Rightarrow> string \<Rightarrow> real \<Rightarrow> py_error + WordFrame" where
  "make_word_frame an w wpm =
     (let clean_word = filter an w;
          orp = (if clean_word \<noteq> [] then calculate_orp clean_word else 0);
          leading_punct = int (length (takeWhile (\<lambda>c. \<not> an c) w))
      in if wpm = 0 then Inl ZeroDivisionError
         else
           (let d = 60 / wpm;
                d' = (if \<exists>c \<in> set ''.!?''. c \<in> set w then d * 1.5
                      else if \<exists>c \<in> set '',;:''. c \<in> set w then d * 1.2
                      else d)
            in Inr \<lparr>word = w, orp_index = orp + leading_punct, duration = d'\<rparr>))"

section \<open>WPM schedule (speedreading.py)\<close>

text \<open>\<^verbatim>\<open>int(x)\<close> on a float: truncation towards zero.\<close>

definition py_int :: "real \<Rightarrow> int" where
  "py_int x = (if 0 \<le> x then \<lfloor>x\<rfloor> else \<lceil>x\<rceil>)"

text \<open>
  The ramp length the loops of \<^verbatim>\<open>create_wpm_schedule\<close> use: the default when the
  argument is \<^verbatim>\<open>None\<close>, then the minimum with the number of words.
\<close>

definition ramp_words_used :: "int \<Rightarrow> int option \<Rightarrow> int" where
  "ramp_words_used n r =
     (let r1 = (case r of None \<Rightarrow> max 20 (py_int (real_of_int n * 0.1)) | Some v \<Rightarrow> v)
      in min r1 n)"

text \<open>The value appended for index \<open>i\<close> by each of the three loops; \<open>rw\<close> is the ramp length.\<close>

definition smooth_wpm :: "real \<Rightarrow> real \<Rightarrow> int \<Rightarrow> int \<Rightarrow> real" where
  "smooth_wpm s p rw i =
     (if i < rw then
        (let progress = real_of_int i / real_of_int rw;
             smooth_progress = (1 - cos (progress * pi)) / 2
         in s + (p - s) * smooth_progress)
      else p)"

definition linear_wpm :: "real \<Rightarrow> real \<Rightarrow> int \<Rightarrow> int \<Rightarrow> real" where
  "linear_wpm s p rw i =
     (if i < rw then
        (let progress = real_of_int i / real_of_int rw
         in s + (p - s) * progress)
      else p)"

definition stepped_wpm :: "real \<Rightarrow> real \<Rightarrow> int \<Rightarrow> int \<Rightarrow> real" where
  "stepped_wpm s p rw i =
     (let num_steps = 6;
          words_per_step = max 1 (rw div num_steps);
          wpm_step = (p - s) / real_of_int num_steps
      in if i < rw then
           (let step = min (i div words_per_step) num_steps
            in s + wpm_step * real_of_int step)
         else p)"

text \<open>
  \<^verbatim>\<open>create_wpm_schedule(start_wpm, peak_wpm, total_words, ramp_words, ramp_style)\<close>,
  with the floats taken as real numbers. \<^verbatim>\<open>range(total_words)\<close> is \<open>[0..n - 1]\<close>.
\<close>

definition create_wpm_schedule ::
  "real \<Rightarrow> real \<Rightarrow> int \<Rightarrow> int option \<Rightarrow> string \<Rightarrow> py_error + real list" where
  "create_wpm_schedule s p n r style =
     (if n \<le> 1 then Inr [s]
      else
        (let rw = ramp_words_used n r
         in if style = ''smooth'' then Inr (map (smooth_wpm s p rw) [0..n - 1])
            else if style = ''linear'' then Inr (map (linear_wpm s p rw) [0..n - 1])
            else if style = ''stepped'' then Inr (map (stepped_wpm s p rw) [0..n - 1])
            else Inl (ValueError (''Unknown ramp_style: '' @ style))))"

text \<open>
  The default of the pacing scheduler as the specification words it:
  \<^verbatim>\<open>max(20, round(0.1 * total_words))\<close>, clamped to the number of words.
\<close>

definition spec_ramp_words :: "int \<Rightarrow> int" where
  "spec_ramp_words n = min (max 20 (round (0.1 * real_of_int n))) n"


section \<open>Frame composition (speedreading.py)\<close>

text \<open>Python list indexing and the slice \<^verbatim>\<open>xs[:k]\<close>, negative indices included.\<close>

definition py_index :: "'a list \<Rightarrow> int \<Rightarrow> py_error + 'a" where
  "py_index xs i =
     (if 0 \<le> i \<and> i < int (length xs) then Inr (xs ! nat i)
      else if i < 0 \<and> - int (length xs) \<le> i then Inr (xs ! nat (int (length xs) + i))
      else Inl IndexError)"

definition py_slice_to :: "'a list \<Rightarrow> int \<Rightarrow> 'a list" where
  "py_slice_to xs k = (if 0 \<le> k then take (nat k) xs else take (nat (int (length xs) + k)) xs)"

text \<open>
  What \<^verbatim>\<open>render_word_frame\<close> draws: the canvas, the two tick marks and one glyph per
  character with its position and fill colour.
\<close>

record frame =
  canvas_width :: int
  canvas_height :: int
  background :: string
  ticks :: "((int \<times> int) \<times> (int \<times> int)) list"
  glyphs :: "(int \<times> int \<times> char \<times> string) list"

text \<open>
  The drawing loop \<^verbatim>\<open>for i, char in enumerate(word)\<close>: the characters come paired with
  their widths, \<open>i\<close> is the index and \<open>current_x\<close> the pen position.
\<close>

fun draw_chars ::
  "int \<Rightarrow> string \<Rightarrow> string \<Rightarrow> int \<Rightarrow> int \<Rightarrow> int \<Rightarrow> (char \<times> int) list \<Rightarrow> (int \<times> int \<times> char \<times> string) list" where
  "draw_chars orp_idx tc oc y_base i current_x [] = []"
| "draw_chars orp_idx tc oc y_base i current_x ((c, cw) # rest) =
     (current_x, y_base, c, if i = orp_idx then oc else tc)
       # draw_chars orp_idx tc oc y_base (i + 1) (current_x + cw) rest"

text \<open>
  The resolved font is the parameter \<open>textbbox\<close>: the bounding box
  \<^verbatim>\<open>draw.textbbox((0, 0), s, font=font)\<close> of a string. The first loop of
  \<^verbatim>\<open>render_word_frame\<close> measures every character on its own.
\<close>

definition char_widths :: "(string \<Rightarrow> int \<times> int \<times> int \<times> int) \<Rightarrow> string \<Rightarrow> int list" where
  "char_widths textbbox w = map (\<lambda>c. case textbbox [c] of (x0, y0, x1, y1) \<Rightarrow> x1 - x0) w"

text \<open>
  \<^verbatim>\<open>render_word_frame\<close>; \<open>wd\<close>, \<open>ht\<close> are the canvas width and height, \<open>bg\<close>, \<open>tc\<close>,
  \<open>oc\<close> the background, text and ORP colours.
\<close>

definition render_word_frame ::
  "(string \<Rightarrow> int \<times> int \<times> int \<times> int) \<Rightarrow> WordFrame \<Rightarrow> int \<Rightarrow> int \<Rightarrow> string \<Rightarrow> string \<Rightarrow> string
     \<Rightarrow> py_error + frame" where
  "render_word_frame textbbox word_frame wd ht bg tc oc =
     (let w = word word_frame;
          orp_idx = min (orp_index word_frame) (int (length w) - 1);
          cws = char_widths textbbox w;
          center_x = wd div 2
      in case (if cws \<noteq> [] then py_index cws orp_idx else Inr 0) of
           Inl e \<Rightarrow> Inl e
         | Inr orp_char_width \<Rightarrow>
             (let chars_before_orp_width = sum_list (py_slice_to cws orp_idx);
                  start_x = center_x - chars_before_orp_width - orp_char_width div 2;
                  (rx0, ry0, rx1, ry1) = textbbox ''Aygjpq'';
                  reference_height = ry1 - ry0;
                  reference_top = ry0;
                  y_base = (ht - reference_height) div 2 - reference_top;
                  line_top = (ht - reference_height) div 2 - 20;
                  line_bottom = (ht + reference_height) div 2 + 20
              in Inr \<lparr>canvas_width = wd,
                      canvas_height = ht,
                      background = bg,
                      ticks = [((center_x, line_top), (center_x, line_top + 15)),
                               ((center_x, line_bottom - 15), (center_x, line_bottom))],
                      glyphs = draw_chars orp_idx tc oc y_base 0 start_x (zip w cws)\<rparr>))"

text \<open>
  The clips of \<^verbatim>\<open>generate_speed_reading_video\<close>: one rendered frame per word, the
  integer shown by the WPM indicator when it is enabled, and the time the frame is held.
\<close>

record clip =
  clip_frame :: frame
  wpm_shown :: "int option"
  clip_duration :: real

fun make_clips ::
  "(char \<Rightarrow> bool) \<Rightarrow> (string \<Rightarrow> int \<times> int \<times> int \<times> int) \<Rightarrow> int \<Rightarrow> int \<Rightarrow> string \<Rightarrow> string \<Rightarrow> string \<Rightarrow> bool
     \<Rightarrow> (string \<times> real) list \<Rightarrow> py_error + clip list" where
  "make_clips an textbbox wd ht bg tc oc sw [] = Inr []"
| "make_clips an textbbox wd ht bg tc oc sw ((w, wpm) # rest) =
     (case make_word_frame an w wpm of
        Inl e \<Rightarrow> Inl e
      | Inr word_frame \<Rightarrow>
          (case render_word_frame textbbox word_frame wd ht bg tc oc of
             Inl e \<Rightarrow> Inl e
           | Inr fr \<Rightarrow>
               (case make_clips an textbbox wd ht bg tc oc sw rest of
                  Inl e \<Rightarrow> Inl e
                | Inr cs \<Rightarrow>
                    Inr (\<lparr>clip_frame = fr,
                          wpm_shown = (if sw then Some (py_int wpm) else None),
                          clip_duration = duration word_frame\<rparr> # cs))))"

text \<open>
  \<^verbatim>\<open>generate_speed_reading_video\<close> up to the list of clips that is handed to the video
  encoder.
\<close>

definition generate_speed_reading_video ::
  "(char \<Rightarrow> bool) \<Rightarrow> (char \<Rightarrow> bool) \<Rightarrow> (string \<Rightarrow> int \<times> int \<times> int \<times> int) \<Rightarrow> string
     \<Rightarrow> real \<Rightarrow> real \<Rightarrow> int option \<Rightarrow> string \<Rightarrow> int \<Rightarrow> int \<Rightarrow> string \<Rightarrow> string \<Rightarrow> string \<Rightarrow> bool
     \<Rightarrow> py_error + clip list" where
  "generate_speed_reading_video sp an textbbox text s p r style wd ht bg tc oc sw =
     (let ws = tokenize_text sp (clean_text sp text)
      in if ws = [] then Inl (ValueError ''No words found in text'')
         else
           (case create_wpm_schedule s p (int (length ws)) r style of
              Inl e \<Rightarrow> Inl e
            | Inr wpm_schedule \<Rightarrow> make_clips an textbbox wd ht bg tc oc sw (zip ws wpm_schedule)))"

section \<open>Chunked assembly\<close>

text \<open>
  Modelled from the spec: \<^verbatim>\<open>generate_chunked_videos\<close>, which \<^verbatim>\<open>process_video_job\<close>
  imports from \<^verbatim>\<open>speedreading\<close> and which that module does not define. The
  specification: the sequence of word units is partitioned into maximal contiguous runs
  whose cumulative duration does not exceed the chunk length, one file per run, in
  order. A unit that is longer than the chunk length on its own is a run of its own.
  \<open>cur\<close> is the run being filled and \<open>t\<close> its cumulative duration.
\<close>

fun chunk_runs :: "real \<Rightarrow> WordFrame list \<Rightarrow> real \<Rightarrow> WordFrame list \<Rightarrow> WordFrame list list" where
  "chunk_runs chunk_len cur t [] = (if cur = [] then [] else [cur])"
| "chunk_runs chunk_len cur t (u # us) =
     (if cur \<noteq> [] \<and> chunk_len < t + duration u
      then cur # chunk_runs chunk_len [u] (duration u) us
      else chunk_runs chunk_len (cur @ [u]) (t + duration u) us)"

definition generate_chunked_videos :: "real \<Rightarrow> WordFrame list \<Rightarrow> WordFrame list list" where
  "generate_chunked_videos chunk_len units = chunk_runs chunk_len [] 0 units"

section \<open>Submission (backend/routes/jobs.py, backend/services/file_handler.py)\<close>

text \<open>
  \<^verbatim>\<open>pathlib\<close> on POSIX paths: the name is the last component that is neither empty nor
  a single dot; the suffix starts at the last dot of the name unless that dot is the
  first or the last character.
\<close>

fun split_on :: "char \<Rightarrow> string \<Rightarrow> string \<Rightarrow> string list" where
  "split_on d cur [] = [cur]"
| "split_on d cur (c # cs) =
     (if c = d then cur # split_on d [] cs else split_on d (cur @ [c]) cs)"

definition path_name :: "string \<Rightarrow> string" where
  "path_name p =
     (case filter (\<lambda>c. c \<noteq> [] \<and> c \<noteq> ''.'') (split_on CHR ''/'' [] p) of
        [] \<Rightarrow> []
      | c # cs \<Rightarrow> last (c # cs))"

definition path_suffix :: "string \<Rightarrow> string" where
  "path_suffix p =
     (let name = path_name p
      in if CHR ''.'' \<notin> set name then []
         else
           (let i = length name - Suc (length (takeWhile (\<lambda>c. c \<noteq> CHR ''.'') (rev name)))
            in if 0 < i \<and> i < length name - 1 then drop i name else []))"

definition path_stem :: "string \<Rightarrow> string" where
  "path_stem p = (let name = path_name p in take (length name - length (path_suffix p)) name)"

text \<open>
  \<^verbatim>\<open>str.lower()\<close> on ASCII text: a capital letter (codes 65 to 90) gets the bit of
  value 32 set.
\<close>

definition lower_char :: "char \<Rightarrow> char" where
  "lower_char c =
     (let n = (of_char c :: nat)
      in if 65 \<le> n \<and> n \<le> 90
         then (case c of Char b0 b1 b2 b3 b4 b5 b6 b7 \<Rightarrow> Char b0 b1 b2 b3 b4 True b6 b7)
         else c)"

definition str_lower :: "string \<Rightarrow> string" where
  "str_lower s = map lower_char s"

definition ALLOWED_EXTENSIONS :: "string set" where
  "ALLOWED_EXTENSIONS = {''.pdf'', ''.epub'', ''.txt''}"

definition UPLOADS_DIR :: string where
  "UPLOADS_DIR = ''storage/uploads''"

record UploadFile =
  uf_filename :: "string option"
  uf_content :: string

text \<open>\<^verbatim>\<open>file.filename or ""\<close> and the like: \<^verbatim>\<open>None\<close> and the empty string are falsy.\<close>

definition str_or :: "string option \<Rightarrow> string \<Rightarrow> string" where
  "str_or v dflt = (case v of None \<Rightarrow> dflt | Some s \<Rightarrow> if s = [] then dflt else s)"

definition validate_file :: "UploadFile \<Rightarrow> py_error + unit" where
  "validate_file file =
     (let fname = str_or (uf_filename file) [];
          ext = str_lower (path_suffix fname)
      in if ext \<notin> ALLOWED_EXTENSIONS
         then Inl (HTTPException 400 (''Invalid file type '' @ ext))
         else Inr ())"

definition save_upload :: "UploadFile \<Rightarrow> string \<Rightarrow> storage \<Rightarrow> string \<times> storage" where
  "save_upload file jid st =
     (let fname = str_or (uf_filename file)
                    (''upload'' @ path_suffix (str_or (uf_filename file) ''.txt''));
          safe_filename = jid @ ''_'' @ fname;
          upath = UPLOADS_DIR @ ''/'' @ safe_filename
      in (upath, st\<lparr>uploads := (uploads st)(upath \<mapsto> uf_content file)\<rparr>))"

text \<open>
  The parameters of a submission arrive as a JSON string. \<open>raw_params\<close> is the decoded
  object: for each key of \<^verbatim>\<open>VideoParams\<close> the value given, or \<open>None\<close> when the key is
  absent. \<open>VideoParams_validate\<close> is the construction \<^verbatim>\<open>VideoParams(**params_dict)\<close>:
  the defaults and the bounds of the \<^verbatim>\<open>Field\<close> declarations of models.py.
\<close>

record raw_params =
  raw_start_wpm :: "int option"
  raw_peak_wpm :: "int option"
  raw_ramp_words :: "int option"
  raw_ramp_style :: "string option"
  raw_chunk_duration :: "real option"
  raw_width :: "int option"
  raw_height :: "int option"
  raw_font_size :: "int option"
  raw_fps :: "int option"
  raw_bg_color :: "string option"
  raw_text_color :: "string option"
  raw_orp_color :: "string option"
  raw_show_wpm :: "bool option"
  raw_preprocess :: "bool option"

definition or_default :: "'a option \<Rightarrow> 'a \<Rightarrow> 'a" where
  "or_default v dflt = (case v of None \<Rightarrow> dflt | Some x \<Rightarrow> x)"

definition in_bounds :: "'a::linorder \<Rightarrow> 'a \<Rightarrow> 'a \<Rightarrow> bool" where
  "in_bounds lo hi v \<longleftrightarrow> lo \<le> v \<and> v \<le> hi"

definition opt_in_bounds :: "'a::linorder \<Rightarrow> 'a \<Rightarrow> 'a option \<Rightarrow> bool" where
  "opt_in_bounds lo hi v = (case v of None \<Rightarrow> True | Some x \<Rightarrow> in_bounds lo hi x)"

definition is_hex_digit :: "char \<Rightarrow> bool" where
  "is_hex_digit c =
     (let n = (of_char c :: nat)
      in (48 \<le> n \<and> n \<le> 57) \<or> (65 \<le> n \<and> n \<le> 70) \<or> (97 \<le> n \<and> n \<le> 102))"

definition is_hex_color :: "string \<Rightarrow> bool" where
  "is_hex_color s =
     (case s of [] \<Rightarrow> False | c # cs \<Rightarrow> c = CHR ''#'' \<and> length cs = 6 \<and> list_all is_hex_digit cs)"

definition parse_ramp_style :: "string option \<Rightarrow> RampStyle option" where
  "parse_ramp_style v =
     (case v of
        None \<Rightarrow> Some SMOOTH
      | Some x \<Rightarrow>
          if x = ''smooth'' then Some SMOOTH
          else if x = ''linear'' then Some LINEAR
          else if x = ''stepped'' then Some STEPPED
          else None)"

definition VideoParams_validate :: "raw_params \<Rightarrow> string + VideoParams" where
  "VideoParams_validate r =
     (let bg = or_default (raw_bg_color r) ''#1a1a2e'';
          tc = or_default (raw_text_color r) ''#ffffff'';
          oc = or_default (raw_orp_color r) ''#ff0000''
      in case parse_ramp_style (raw_ramp_style r) of
           None \<Rightarrow> Inl ''validation error''
         | Some style \<Rightarrow>
             if opt_in_bounds 50 1000 (raw_start_wpm r)
                \<and> opt_in_bounds 100 2000 (raw_peak_wpm r)
                \<and> opt_in_bounds 10 500 (raw_ramp_words r)
                \<and> opt_in_bounds 5 300 (raw_chunk_duration r)
                \<and> opt_in_bounds 640 3840 (raw_width r)
                \<and> opt_in_bounds 480 2160 (raw_height r)
                \<and> opt_in_bounds 24 300 (raw_font_size r)
                \<and> opt_in_bounds 15 60 (raw_fps r)
                \<and> is_hex_color bg \<and> is_hex_color tc \<and> is_hex_color oc
             then Inr \<lparr>start_wpm = or_default (raw_start_wpm r) 200,
                       peak_wpm = or_default (raw_peak_wpm r) 600,
                       ramp_words = raw_ramp_words r,
                       ramp_style = style,
                       chunk_duration = raw_chunk_duration r,
                       width = or_default (raw_width r) 1920,
                       height = or_default (raw_height r) 1080,
                       font_size = or_default (raw_font_size r) 120,
                       fps = or_default (raw_fps r) 30,
                       bg_color = bg,
                       text_color = tc,
                       orp_color = oc,
                       show_wpm = or_default (raw_show_wpm r) True,
                       preprocess = or_default (raw_preprocess r) True\<rparr>
             else Inl ''validation error'')"

text \<open>
  The two statements of the \<^verbatim>\<open>try\<close> block of the route: \<^verbatim>\<open>json.loads(params)\<close>, the
  parameter \<open>json_loads\<close> (it fails with the text of its exception on a string that is
  not a JSON object of the right types), then the construction.
\<close>

definition parse_params :: "(string \<Rightarrow> string + raw_params) \<Rightarrow> string \<Rightarrow> string + VideoParams" where
  "parse_params json_loads ps =
     (case json_loads ps of Inl e \<Rightarrow> Inl e | Inr r \<Rightarrow> VideoParams_validate r)"

text \<open>
  The route \<^verbatim>\<open>create_job\<close> of routes/jobs.py. The result is the HTTP error, or the
  response together with the id of the job queued for \<^verbatim>\<open>process_video_job\<close>.
\<close>

definition routes_create_job ::
  "(nat \<Rightarrow> string) \<Rightarrow> (string \<Rightarrow> string + raw_params) \<Rightarrow> string \<Rightarrow> UploadFile \<Rightarrow> string \<Rightarrow> storage
     \<Rightarrow> (py_error + JobResponse \<times> string) \<times> storage" where
  "routes_create_job uuid4 json_loads now file ps st =
     (case validate_file file of
        Inl e \<Rightarrow> (Inl e, st)
      | Inr _ \<Rightarrow>
          (case parse_params json_loads ps of
             Inl e \<Rightarrow> (Inl (HTTPException 400 (''Invalid parameters: '' @ e)), st)
           | Inr video_params \<Rightarrow>
               (let (jid, st1) = create_job uuid4 st;
                    (upath, st2) = save_upload file jid st1;
                    (job, st3) =
                      initialize_job jid (str_or (uf_filename file) ''upload'') upath video_params now st2
                in (Inr (job, jid), st3))))"

section \<open>Background worker (backend/workers/background.py)\<close>

text \<open>The decimal digits of a number, for the f-string of the progress message.\<close>

fun str_of_nat :: "nat \<Rightarrow> string" where
  "str_of_nat n =
     (if n < 10 then [''0123456789'' ! n]
      else str_of_nat (n div 10) @ [''0123456789'' ! (n mod 10)])"

declare str_of_nat.simps [simp del]

text \<open>
  What \<^verbatim>\<open>process_video_job\<close> gets from outside the job manager during one run: the two
  readings of the clock, the outcome of text extraction (the text, or the text of the
  exception raised), the outcome of video generation (the text of the exception, if
  one is raised, and the file names the chunked generator returns) and the measured
  duration (0 when the measurement failed).
\<close>

record worker_env =
  started_now :: string
  finished_now :: string
  extract_result :: "string + string"
  generate_error :: "string option"
  chunk_outputs :: "string list"
  measured_duration :: real

text \<open>
  The worker calls the job manager six times in a row, and once more in its exception
  handler. Each call is atomic (it runs under the job's lock); between two calls other
  requests may reach the storage. The control points of the worker are therefore the
  calls, each with the local variables that are live there.
\<close>

datatype worker_pc =
    At_get_job
  | At_mark_processing JobResponse
  | At_get_job_data JobResponse
  | At_report_words JobResponse string
  | At_report_generating JobResponse
  | At_mark_completed "string list"
  | At_mark_failed string
  | Finished

text \<open>
  One step of the worker: the job manager call at the control point, then the code up
  to the next call. An exception raised on the way leads to the handler's call.
\<close>

fun worker_step ::
  "(char \<Rightarrow> bool) \<Rightarrow> worker_env \<Rightarrow> string \<Rightarrow> worker_pc \<times> storage \<Rightarrow> worker_pc \<times> storage" where
  "worker_step sp env jid (At_get_job, st) =
     (case get_job jid st of
        (None, st') \<Rightarrow> (Finished, st')
      | (Some job, st') \<Rightarrow> (At_mark_processing job, st'))"
| "worker_step sp env jid (At_mark_processing job, st) =
     (At_get_job_data job,
      snd (update_job jid
             [Set_status PROCESSING,
              Set_started_at (Some (started_now env)),
              Set_current_step ''Extracting text from document''] st))"
| "worker_step sp env jid (At_get_job_data job, st) =
     (case get_job_data jid st of
        (None, st') \<Rightarrow> (Finished, st')
      | (Some d, st') \<Rightarrow>
          (case extract_result env of
             Inl e \<Rightarrow> (At_mark_failed e, st')
           | Inr text \<Rightarrow> (At_report_words job text, st')))"
| "worker_step sp env jid (At_report_words job text, st) =
     (let ws = tokenize_text sp (clean_text sp text);
          n = length ws;
          st' = snd (update_job jid
                       [Set_total_words (Some (int n)),
                        Set_current_step (''Found '' @ str_of_nat n @ '' words, starting video generation''),
                        Set_progress_percent 10] st);
          st'' = st'\<lparr>outputs := (outputs st')(jid \<mapsto> or_default (outputs st' jid) [])\<rparr>
      in (At_report_generating job, st''))"
| "worker_step sp env jid (At_report_generating job, st) =
     (let st' = snd (update_job jid
                       [Set_current_step ''Generating video frames'',
                        Set_progress_percent 20] st)
      in case generate_error env of
           Some e \<Rightarrow> (At_mark_failed e, st')
         | None \<Rightarrow>
             (let output_filenames =
                    (if chunk_duration (resp_params job) \<noteq> None \<and> chunk_duration (resp_params job) \<noteq> Some 0
                     then chunk_outputs env
                     else [path_stem (resp_filename job) @ ''.mp4''])
              in (At_mark_completed output_filenames,
                  st'\<lparr>outputs := (outputs st')(jid \<mapsto> output_filenames)\<rparr>)))"
| "worker_step sp env jid (At_mark_completed output_filenames, st) =
     (Finished,
      snd (update_job jid
             [Set_status COMPLETED,
              Set_completed_at (Some (finished_now env)),
              Set_progress_percent 100,
              Set_current_step ''Complete'',
              Set_output_files output_filenames,
              Set_video_duration_seconds
                (if 0 < measured_duration env then Some (measured_duration env) else None)] st))"
| "worker_step sp env jid (At_mark_failed e, st) =
     (Finished,
      snd (update_job jid
             [Set_status FAILED,
              Set_completed_at (Some (finished_now env)),
              Set_error_message (Some e),
              Set_current_step ''Failed''] st))"
| "worker_step sp env jid (Finished, st) = (Finished, st)"

text \<open>
  \<^verbatim>\<open>process_video_job\<close> when nothing else touches the storage: the seven steps from the
  first call to the end.
\<close>

definition process_video_job :: "(char \<Rightarrow> bool) \<Rightarrow> worker_env \<Rightarrow> string \<Rightarrow> storage \<Rightarrow> storage" where
  "process_video_job sp env jid st = snd ((worker_step sp env jid ^^ 7) (At_get_job, st))"

text \<open>
  The system around one job: its worker takes a step, or a request from outside
  reaches the job manager between two steps (a read or a deletion, of this job or of
  another one).
\<close>

datatype event = Worker_step | Read_job string | Delete_job string

fun system_step ::
  "(char \<Rightarrow> bool) \<Rightarrow> worker_env \<Rightarrow> string \<Rightarrow> event \<Rightarrow> worker_pc \<times> storage \<Rightarrow> worker_pc \<times> storage" where
  "system_step sp env jid Worker_step c = worker_step sp env jid c"
| "system_step sp env jid (Read_job j) (pc, st) = (pc, snd (get_job j st))"
| "system_step sp env jid (Delete_job j) (pc, st) = (pc, snd (delete_job j st))"

text \<open>The run of the system over a list of events: every configuration it passes.\<close>

fun run ::
  "(char \<Rightarrow> bool) \<Rightarrow> worker_env \<Rightarrow> string \<Rightarrow> event list \<Rightarrow> worker_pc \<times> storage
     \<Rightarrow> (worker_pc \<times> storage) list" where
  "run sp env jid [] c = [c]"
| "run sp env jid (e # es) c = c # run sp env jid es (system_step sp env jid e c)"

text \<open>The status of the job's record in a storage, if it has one.\<close>

definition status_of :: "string \<Rightarrow> storage \<Rightarrow> JobStatus option" where
  "status_of jid st = map_option status (jobs st jid)"

text \<open>
  The arrows of the life cycle: \<open>PENDING \<rightarrow> PROCESSING \<rightarrow> COMPLETED | FAILED\<close>. Between
  two configurations the status stays, follows one arrow, or the record is deleted; a
  deleted record does not come back.
\<close>

fun lifecycle_arrow :: "JobStatus \<Rightarrow> JobStatus \<Rightarrow> bool" where
  "lifecycle_arrow PENDING PROCESSING = True"
| "lifecycle_arrow PROCESSING COMPLETED = True"
| "lifecycle_arrow PROCESSING FAILED = True"
| "lifecycle_arrow a b = False"

fun lifecycle_move :: "JobStatus option \<Rightarrow> JobStatus option \<Rightarrow> bool" where
  "lifecycle_move (Some a) (Some b) = (a = b \<or> lifecycle_arrow a b)"
| "lifecycle_move a None = True"
| "lifecycle_move None (Some b) = False"

definition empty_storage :: storage where
  "empty_storage =
     \<lparr>jobs = Map.empty, locks = {}, uploads = Map.empty, outputs = Map.empty, uuid_draws = 0\<rparr>"

text \<open>A font for the examples: every character is 7 wide, every box spans 3 to 24.\<close>

definition example_textbbox :: "string \<Rightarrow> int \<times> int \<times> int \<times> int" where
  "example_textbbox s = (0, 3, 7 * int (length s), 24)"

text \<open>A decoder for the examples: it knows three parameter strings.\<close>

definition no_params :: raw_params where
  "no_params =
     \<lparr>raw_start_wpm = None, raw_peak_wpm = None, raw_ramp_words = None, raw_ramp_style = None,
      raw_chunk_duration = None, raw_width = None, raw_height = None, raw_font_size = None,
      raw_fps = None, raw_bg_color = None, raw_text_color = None, raw_orp_color = None,
      raw_show_wpm = None, raw_preprocess = None\<rparr>"

definition example_json_loads :: "string \<Rightarrow> string + raw_params" where
  "example_json_loads s =
     (if s = ''{}'' then Inr no_params
      else if s = ''{start_wpm: 10}'' then Inr (no_params\<lparr>raw_start_wpm := Some 10\<rparr>)
      else if s = ''{ramp_style: stepped}'' then Inr (no_params\<lparr>raw_ramp_style := Some ''stepped''\<rparr>)
      else Inl ''JSONDecodeError'')"

text \<open>
  The run of one job: the record is created by \<^verbatim>\<open>initialize_job\<close>, as the route does,
  and the worker starts at its first call.
\<close>

definition job_trace ::
  "(char \<Rightarrow> bool) \<Rightarrow> worker_env \<Rightarrow> string \<Rightarrow> string \<Rightarrow> string \<Rightarrow> VideoParams \<Rightarrow> string \<Rightarrow> storage
     \<Rightarrow> event list \<Rightarrow> (worker_pc \<times> storage) list" where
  "job_trace sp env jid fname upath ps now st0 evs =
     run sp env jid evs (At_get_job, snd (initialize_job jid fname upath ps now st0))"

text \<open>
  What the record of the job looks like at each control point of its worker, as long
  as the record exists.
\<close>

fun record_at :: "worker_pc \<Rightarrow> job_data \<Rightarrow> bool" where
  "record_at At_get_job d = (status d = PENDING)"
| "record_at (At_mark_processing job) d = (status d = PENDING)"
| "record_at Finished d =
     (status d = COMPLETED \<or>
      status d = FAILED \<and> error_message d \<noteq> None \<and> completed_at d \<noteq> None)"
| "record_at pc d = (status d = PROCESSING)"

definition worker_inv :: "string \<Rightarrow> worker_pc \<times> storage \<Rightarrow> bool" where
  "worker_inv jid c = (case jobs (snd c) jid of None \<Rightarrow> True | Some d \<Rightarrow> record_at (fst c) d)"

text \<open>An environment for the examples: extraction and generation succeed.\<close>

definition example_env :: worker_env where
  "example_env =
     \<lparr>started_now = ''2026-01-01T00:00:01'',
      finished_now = ''2026-01-01T00:00:09'',
      extract_result = Inr ''Wait ... what'',
      generate_error = None,
      chunk_outputs = [],
      measured_duration = 1\<rparr>"

definition example_params :: VideoParams where
  "example_params =
     \<lparr>start_wpm = 200, peak_wpm = 600, ramp_words = None, ramp_style = SMOOTH,
      chunk_duration = None, width = 1920, height = 1080, font_size = 120, fps = 30,
      bg_color = ''#1a1a2e'', text_color = ''#ffffff'', orp_color = ''#ff0000'',
      show_wpm = True, preprocess = True\<rparr>"

section \<open>Updating a job that has no record\<close>

lemma jobs_after_delete: "jobs (snd (delete_job jid st)) jid = None"
  by (simp add: delete_job_def split: option.splits)

text \<open>
  Claim C9. For a job id with no stored record, \<^verbatim>\<open>update_job\<close> returns \<^verbatim>\<open>None\<close> and the
  storage is the same afterwards, whatever the keyword arguments are. In particular an
  update that a worker issues after \<^verbatim>\<open>delete_job\<close> has removed its job returns \<^verbatim>\<open>None\<close>,
  leaves the storage as the deletion left it, and the job still has no record.
\<close>

theorem update_job_absent_is_noop:
  "(jobs st jid = None \<longrightarrow> update_job jid updates st = (None, st)) \<and>
   (let st' = snd (delete_job jid st)
    in update_job jid updates st' = (None, st') \<and>
       jobs (snd (update_job jid updates st')) jid = None)"
  by (simp add: update_job_def Let_def jobs_after_delete)

theorem update_job_absent_is_noop_witness:
  "jobs empty_storage ''0a1b2c3d'' = None \<and>
   update_job ''0a1b2c3d'' [Set_status COMPLETED, Set_progress_percent 100] empty_storage
     = (None, empty_storage)"
  using update_job_absent_is_noop
          [of empty_storage "''0a1b2c3d''" "[Set_status COMPLETED, Set_progress_percent 100]"]
  by (simp add: empty_storage_def)

section \<open>The ORP index of a word frame\<close>

lemma split_acc_nonempty: "w \<in> set (split_acc sp cur s) \<Longrightarrow> w \<noteq> []"
  by (induction s arbitrary: cur) (auto split: if_splits)

lemma tokenize_text_nonempty: "w \<in> set (tokenize_text sp text) \<Longrightarrow> w \<noteq> []"
  by (auto simp: tokenize_text_def py_split_def dest: split_acc_nonempty)

lemma calculate_orp_range:
  "xs \<noteq> [] \<Longrightarrow> 0 \<le> calculate_orp xs \<and> calculate_orp xs \<le> int (length xs) - 1"
  by (cases xs) (auto simp: calculate_orp_def Let_def Suc_le_eq)

text \<open>The leading punctuation and the alphanumeric core do not overlap.\<close>

lemma leading_plus_core_le:
  "length (takeWhile (\<lambda>c. \<not> an c) w) + length (filter an w) \<le> length w"
proof -
  have "filter an (takeWhile (\<lambda>c. \<not> an c) w) = []"
    by (induction w) auto
  then have "filter an w = filter an (dropWhile (\<lambda>c. \<not> an c) w)"
    by (metis append_Nil filter_append takeWhile_dropWhile_id)
  then have "length (filter an w) \<le> length (dropWhile (\<lambda>c. \<not> an c) w)"
    by (metis length_filter_le)
  moreover have "length (takeWhile (\<lambda>c. \<not> an c) w) + length (dropWhile (\<lambda>c. \<not> an c) w) = length w"
    by (metis length_append takeWhile_dropWhile_id)
  ultimately show ?thesis by linarith
qed

lemma leading_all:
  "filter an w = [] \<Longrightarrow> length (takeWhile (\<lambda>c. \<not> an c) w) = length w"
  by (induction w) (auto split: if_splits)

lemma filter_empty_iff: "filter an w = [] \<longleftrightarrow> \<not> (\<exists>c\<in>set w. an c)"
  by (induction w) auto

lemma make_word_frame_orp:
  assumes "w \<noteq> []" and "wpm \<noteq> 0"
  shows "\<exists>f. make_word_frame an w wpm = Inr f \<and> word f = w \<and>
           0 \<le> orp_index f \<and> orp_index f \<le> int (length w) \<and>
           (orp_index f \<le> int (length w) - 1 \<longleftrightarrow> (\<exists>c\<in>set w. an c))"
proof (cases "filter an w = []")
  case True
  then have "length (takeWhile (\<lambda>c. \<not> an c) w) = length w" by (rule leading_all)
  moreover from True have "\<not> (\<exists>c\<in>set w. an c)" by (simp add: filter_empty_iff)
  ultimately show ?thesis using assms True
    by (simp add: make_word_frame_def Let_def)
next
  case False
  then have r: "0 \<le> calculate_orp (filter an w)"
      "calculate_orp (filter an w) \<le> int (length (filter an w)) - 1"
    using calculate_orp_range by auto
  have l: "length (takeWhile (\<lambda>c. \<not> an c) w) + length (filter an w) \<le> length w"
    by (rule leading_plus_core_le)
  from False have "\<exists>c\<in>set w. an c" by (simp add: filter_empty_iff)
  then show ?thesis using assms False r l
    by (simp add: make_word_frame_def Let_def)
qed

text \<open>
  Claim C1, as the code has it. For every token \<open>w\<close> that tokenization produces and
  every non-zero pace, the pipeline builds a \<^verbatim>\<open>WordFrame\<close> for \<open>w\<close> whose \<open>orp_index\<close>
  (table index of the alphanumeric core plus the number of leading non-alphanumeric
  characters) lies between 0 and \<open>len(w)\<close>; it is at most \<open>len(w) - 1\<close> exactly when
  the token has an alphanumeric character. The pipeline does not clamp the stored
  value: for a token without alphanumeric characters it is \<open>len(w)\<close>. The index that
  \<^verbatim>\<open>render_word_frame\<close> uses, \<open>min(orp_index, len(w) - 1)\<close>, is within
  \<open>[0, len(w) - 1]\<close> for every token.
\<close>

theorem word_frame_orp_index_range:
  assumes "w \<in> set (tokenize_text sp (clean_text sp text))" and "wpm \<noteq> 0"
  shows "\<exists>f. make_word_frame an w wpm = Inr f \<and> word f = w \<and>
           0 \<le> orp_index f \<and> orp_index f \<le> int (length w) \<and>
           (orp_index f \<le> int (length w) - 1 \<longleftrightarrow> (\<exists>c\<in>set w. an c)) \<and>
           0 \<le> min (orp_index f) (int (length w) - 1) \<and>
           min (orp_index f) (int (length w) - 1) \<le> int (length w) - 1"
proof -
  from assms(1) have ne: "w \<noteq> []" by (rule tokenize_text_nonempty)
  from make_word_frame_orp [OF ne assms(2), of an] obtain f where
    f: "make_word_frame an w wpm = Inr f" "word f = w" "0 \<le> orp_index f"
       "orp_index f \<le> int (length w)"
       "orp_index f \<le> int (length w) - 1 \<longleftrightarrow> (\<exists>c\<in>set w. an c)"
    by blast
  from ne have "0 \<le> int (length w) - 1" by (cases w) auto
  with f show ?thesis by auto
qed

theorem word_frame_orp_index_range_witness:
  "''Hello,'' \<in> set (tokenize_text ascii_isspace (clean_text ascii_isspace ''Hello, world'')) \<and>
   make_word_frame ascii_isalnum ''Hello,'' 200
     = Inr \<lparr>word = ''Hello,'', orp_index = 1, duration = 9 / 25\<rparr>"
  using word_frame_orp_index_range
          [of "''Hello,''" ascii_isspace "''Hello, world''" 200 ascii_isalnum]
  by (simp add: tokenize_text_def clean_text_def collapse_ws_def squeeze_newlines_def
        py_split_def strip_def ascii_isspace_def make_word_frame_def ascii_isalnum_def
        calculate_orp_def)

text \<open>
  The claim as stated fails for a token made of punctuation only: the text
  \<^verbatim>\<open>... wait\<close> has the token \<^verbatim>\<open>...\<close>, of length 3, and its word frame (at the
  pace 200 of the first word) has \<open>orp_index = 3\<close>.
\<close>

theorem orp_index_unclamped_counterexample:
  "tokenize_text ascii_isspace (clean_text ascii_isspace ''... wait'') = [''...'', ''wait''] \<and>
   make_word_frame ascii_isalnum ''...'' 200
     = Inr \<lparr>word = ''...'', orp_index = 3, duration = 9 / 20\<rparr> \<and>
   \<not> (3 \<le> int (length ''...'') - 1)"
  by (simp add: tokenize_text_def clean_text_def collapse_ws_def squeeze_newlines_def
        py_split_def strip_def ascii_isspace_def make_word_frame_def ascii_isalnum_def
        calculate_orp_def)

section \<open>Alignment and totality of the frame composer\<close>

lemma draw_chars_length: "length (draw_chars k tc oc y i x zs) = length zs"
  by (induction zs arbitrary: i x) auto

lemma draw_chars_nth:
  "j < length zs \<Longrightarrow>
   draw_chars k tc oc y i x zs ! j =
     (x + sum_list (take j (map snd zs)), y, fst (zs ! j), if i + int j = k then oc else tc)"
proof (induction zs arbitrary: i x j)
  case Nil
  then show ?case by simp
next
  case (Cons z zs)
  obtain c cw where z: "z = (c, cw)" by (cases z)
  show ?case
  proof (cases j)
    case 0
    then show ?thesis by (simp add: z)
  next
    case (Suc j')
    with Cons.prems have "j' < length zs" by simp
    from Cons.IH [OF this, of "i + 1" "x + cw"] show ?thesis
      by (simp add: z Suc add.assoc)
  qed
qed

lemma length_char_widths: "length (char_widths textbbox w) = length w"
  by (simp add: char_widths_def)

lemma py_index_in_range:
  "0 \<le> k \<Longrightarrow> k < int (length xs) \<Longrightarrow> py_index xs k = Inr (xs ! nat k)"
  by (simp add: py_index_def)

lemma render_word_frame_in_range:
  assumes "0 \<le> k" and "k < int (length (word f))"
    and "k = min (orp_index f) (int (length (word f)) - 1)"
  shows "render_word_frame textbbox f wd ht bg tc oc =
     Inr \<lparr>canvas_width = wd,
          canvas_height = ht,
          background = bg,
          ticks = (case textbbox ''Aygjpq'' of (rx0, ry0, rx1, ry1) \<Rightarrow>
                     [((wd div 2, (ht - (ry1 - ry0)) div 2 - 20), (wd div 2, (ht - (ry1 - ry0)) div 2 - 20 + 15)),
                      ((wd div 2, (ht + (ry1 - ry0)) div 2 + 20 - 15), (wd div 2, (ht + (ry1 - ry0)) div 2 + 20))]),
          glyphs = (case textbbox ''Aygjpq'' of (rx0, ry0, rx1, ry1) \<Rightarrow>
                      draw_chars k tc oc ((ht - (ry1 - ry0)) div 2 - ry0) 0
                        (wd div 2 - sum_list (take (nat k) (char_widths textbbox (word f)))
                           - (char_widths textbbox (word f) ! nat k) div 2)
                        (zip (word f) (char_widths textbbox (word f))))\<rparr>"
proof -
  from assms(1,2) have ne: "char_widths textbbox (word f) \<noteq> []"
    by (auto simp: char_widths_def)
  from assms(1,2) have idx: "py_index (char_widths textbbox (word f)) k
      = Inr (char_widths textbbox (word f) ! nat k)"
    by (simp add: py_index_in_range length_char_widths)
  from assms(1) have sl: "py_slice_to (char_widths textbbox (word f)) k
      = take (nat k) (char_widths textbbox (word f))"
    by (simp add: py_slice_to_def)
  show ?thesis
    unfolding render_word_frame_def Let_def assms(3) [symmetric]
    using ne idx sl by (simp split: prod.splits)
qed


text \<open>
  Claim C8. For a non-empty word, an ORP index within the word and any font (any
  assignment of widths to characters), \<^verbatim>\<open>render_word_frame\<close> draws one glyph per
  character; the first glyph is drawn at the canvas centre \<open>wd div 2\<close> minus the summed
  widths of the characters before the ORP character minus half the width of the ORP
  character; and the ORP character is drawn so that its left edge plus half its width
  is the canvas centre. Centre and half are the integer halves the code computes
  (\<^verbatim>\<open>//\<close>).
\<close>

theorem orp_character_centered:
  assumes "word f \<noteq> []" and "0 \<le> orp_index f" and "orp_index f < int (length (word f))"
  shows "\<exists>fr. render_word_frame textbbox f wd ht bg tc oc = Inr fr \<and>
           length (glyphs fr) = length (word f) \<and>
           fst (glyphs fr ! 0) =
             wd div 2 - sum_list (take (nat (orp_index f)) (char_widths textbbox (word f)))
               - (char_widths textbbox (word f) ! nat (orp_index f)) div 2 \<and>
           fst (glyphs fr ! nat (orp_index f))
               + (char_widths textbbox (word f) ! nat (orp_index f)) div 2 = wd div 2 \<and>
           fst (snd (snd (glyphs fr ! nat (orp_index f)))) = word f ! nat (orp_index f)"
proof -
  let ?k = "orp_index f"
  let ?cws = "char_widths textbbox (word f)"
  from assms(3) have k: "?k = min (orp_index f) (int (length (word f)) - 1)" by simp
  obtain rx0 ry0 rx1 ry1 where bb: "textbbox ''Aygjpq'' = (rx0, ry0, rx1, ry1)"
    by (cases "textbbox ''Aygjpq''") auto
  have zl: "length (zip (word f) ?cws) = length (word f)"
    by (simp add: length_char_widths)
  have ms: "map snd (zip (word f) ?cws) = ?cws"
    by (simp add: length_char_widths)
  from assms(2,3) have kl: "nat ?k < length (word f)" by linarith
  from assms(1) have z: "0 < length (word f)" by simp
  have nthk: "fst (zip (word f) ?cws ! nat ?k) = word f ! nat ?k"
    using kl by (simp add: length_char_widths)
  show ?thesis
    unfolding render_word_frame_in_range [OF assms(2) assms(3) k] bb
    using assms(1) kl z nthk
    by (simp add: draw_chars_length draw_chars_nth ms length_char_widths)
qed

theorem orp_character_centered_witness:
  "''Hello,'' \<noteq> [] \<and> (0::int) \<le> 1 \<and> 1 < int (length ''Hello,'') \<and>
   render_word_frame example_textbbox \<lparr>word = ''Hello,'', orp_index = 1, duration = 9 / 25\<rparr> 1920 1080
      ''#1a1a2e'' ''#ffffff'' ''#ff0000''
     = Inr \<lparr>canvas_width = 1920, canvas_height = 1080, background = ''#1a1a2e'',
            ticks = [((960, 509), (960, 524)), ((960, 555), (960, 570))],
            glyphs = [(950, 526, CHR ''H'', ''#ffffff''), (957, 526, CHR ''e'', ''#ff0000''),
                      (964, 526, CHR ''l'', ''#ffffff''), (971, 526, CHR ''l'', ''#ffffff''),
                      (978, 526, CHR ''o'', ''#ffffff''), (985, 526, CHR '','', ''#ffffff'')]\<rparr>"
  using orp_character_centered [of "\<lparr>word = ''Hello,'', orp_index = 1, duration = 9 / 25\<rparr>"
          example_textbbox 1920 1080 "''#1a1a2e''" "''#ffffff''" "''#ff0000''"]
  by (simp add: render_word_frame_def example_textbbox_def char_widths_def py_index_def py_slice_to_def)

text \<open>
  Claim C10. For a non-empty word and any non-negative \<open>orp_index\<close>,
  \<^verbatim>\<open>render_word_frame\<close> returns a frame. The position it uses is
  \<open>min(orp_index, len(word) - 1)\<close>, which is an index of the word, so the width lookup
  \<^verbatim>\<open>char_widths[orp_idx]\<close> succeeds; there is one glyph per character, and the glyph
  at that position, and only that one, has the ORP colour.
\<close>

theorem render_word_frame_total:
  assumes "word f \<noteq> []" and "0 \<le> orp_index f"
  shows "\<exists>fr. render_word_frame textbbox f wd ht bg tc oc = Inr fr \<and>
           0 \<le> min (orp_index f) (int (length (word f)) - 1) \<and>
           min (orp_index f) (int (length (word f)) - 1) < int (length (word f)) \<and>
           py_index (char_widths textbbox (word f)) (min (orp_index f) (int (length (word f)) - 1))
             = Inr (char_widths textbbox (word f) ! nat (min (orp_index f) (int (length (word f)) - 1))) \<and>
           length (glyphs fr) = length (word f) \<and>
           (\<forall>j < length (word f).
              snd (snd (glyphs fr ! j)) =
                (word f ! j,
                 if int j = min (orp_index f) (int (length (word f)) - 1) then oc else tc))"
proof -
  let ?k = "min (orp_index f) (int (length (word f)) - 1)"
  let ?cws = "char_widths textbbox (word f)"
  from assms(1) have pos: "0 < length (word f)" by simp
  with assms(2) have k0: "0 \<le> ?k" and k1: "?k < int (length (word f))" by simp_all
  obtain rx0 ry0 rx1 ry1 where bb: "textbbox ''Aygjpq'' = (rx0, ry0, rx1, ry1)"
    by (cases "textbbox ''Aygjpq''") auto
  have zl: "length (zip (word f) ?cws) = length (word f)"
    by (simp add: length_char_widths)
  have idx: "py_index ?cws ?k = Inr (?cws ! nat ?k)"
    using k0 k1 by (simp add: py_index_in_range length_char_widths)
  have gl: "\<forall>j < length (word f).
      snd (snd (draw_chars ?k tc oc y 0 x (zip (word f) ?cws) ! j)) =
        (word f ! j, if int j = ?k then oc else tc)" for x y
    by (simp add: draw_chars_nth zl length_char_widths)
  show ?thesis
    unfolding render_word_frame_in_range [OF k0 k1 refl] bb
    using k0 k1 idx gl by (simp add: draw_chars_length length_char_widths)
qed

theorem render_word_frame_total_witness:
  "''...'' \<noteq> [] \<and> (0::int) \<le> 3 \<and>
   render_word_frame example_textbbox \<lparr>word = ''...'', orp_index = 3, duration = 9 / 20\<rparr> 1920 1080
      ''#1a1a2e'' ''#ffffff'' ''#ff0000''
     = Inr \<lparr>canvas_width = 1920, canvas_height = 1080, background = ''#1a1a2e'',
            ticks = [((960, 509), (960, 524)), ((960, 555), (960, 570))],
            glyphs = [(943, 526, CHR ''.'', ''#ffffff''), (950, 526, CHR ''.'', ''#ffffff''),
                      (957, 526, CHR ''.'', ''#ff0000'')]\<rparr>"
  using render_word_frame_total [of "\<lparr>word = ''...'', orp_index = 3, duration = 9 / 20\<rparr>"
          example_textbbox 1920 1080 "''#1a1a2e''" "''#ffffff''" "''#ff0000''"]
  by (simp add: render_word_frame_def example_textbbox_def char_widths_def py_index_def py_slice_to_def)

text \<open>
  The whole pipeline on the text \<^verbatim>\<open>... wait\<close> with the default pacing: the token
  of punctuation is drawn with its last character highlighted.
\<close>

lemma pipeline_example:
  "generate_speed_reading_video ascii_isspace ascii_isalnum example_textbbox ''... wait''
      200 600 None ''smooth'' 1920 1080 ''#1a1a2e'' ''#ffffff'' ''#ff0000'' True
   = Inr [\<lparr>clip_frame =
              \<lparr>canvas_width = 1920, canvas_height = 1080, background = ''#1a1a2e'',
               ticks = [((960, 509), (960, 524)), ((960, 555), (960, 570))],
               glyphs = [(943, 526, CHR ''.'', ''#ffffff''), (950, 526, CHR ''.'', ''#ffffff''),
                         (957, 526, CHR ''.'', ''#ff0000'')]\<rparr>,
            wpm_shown = Some 200, clip_duration = 9 / 20\<rparr>,
          \<lparr>clip_frame =
              \<lparr>canvas_width = 1920, canvas_height = 1080, background = ''#1a1a2e'',
               ticks = [((960, 509), (960, 524)), ((960, 555), (960, 570))],
               glyphs = [(950, 526, CHR ''w'', ''#ffffff''), (957, 526, CHR ''a'', ''#ff0000''),
                         (964, 526, CHR ''i'', ''#ffffff''), (971, 526, CHR ''t'', ''#ffffff'')]\<rparr>,
            wpm_shown = Some 400, clip_duration = 3 / 20\<rparr>]"
  by (simp add: generate_speed_reading_video_def tokenize_text_def clean_text_def collapse_ws_def
        squeeze_newlines_def py_split_def strip_def ascii_isspace_def make_word_frame_def
        ascii_isalnum_def calculate_orp_def create_wpm_schedule_def ramp_words_used_def py_int_def
        smooth_wpm_def upto.simps render_word_frame_def example_textbbox_def char_widths_def
        py_index_def py_slice_to_def)

section \<open>Chunks partition the word units\<close>

lemma chunk_runs_concat: "concat (chunk_runs L cur t us) = cur @ us"
  by (induction us arbitrary: cur t) auto

lemma chunk_runs_nonempty: "c \<in> set (chunk_runs L cur t us) \<Longrightarrow> c \<noteq> []"
  by (induction us arbitrary: cur t) (auto split: if_splits)

text \<open>
  The runs respect the chunk length: when no unit has a negative duration, a chunk of
  two or more units lasts no longer than the chunk length.
\<close>

lemma chunk_runs_bound:
  assumes "\<forall>u \<in> set us. 0 \<le> duration u"
    and "t = sum_list (map duration cur)"
    and "2 \<le> length cur \<longrightarrow> t \<le> L"
    and "c \<in> set (chunk_runs L cur t us)" and "2 \<le> length c"
  shows "sum_list (map duration c) \<le> L"
  using assms
proof (induction us arbitrary: cur t)
  case Nil
  then show ?case by (auto split: if_splits)
next
  case (Cons u us)
  show ?case
  proof (cases "cur \<noteq> [] \<and> L < t + duration u")
    case True
    with Cons.prems(4) have "c = cur \<or> c \<in> set (chunk_runs L [u] (duration u) us)" by auto
    then show ?thesis
    proof
      assume "c = cur"
      with Cons.prems show ?thesis by simp
    next
      assume "c \<in> set (chunk_runs L [u] (duration u) us)"
      with Cons.prems Cons.IH [of "duration u" "[u]"] show ?thesis by simp
    qed
  next
    case False
    with Cons.prems(4) have c: "c \<in> set (chunk_runs L (cur @ [u]) (t + duration u) us)" by auto
    from False have "cur = [] \<or> t + duration u \<le> L" by auto
    then have "2 \<le> length (cur @ [u]) \<longrightarrow> t + duration u \<le> L" by auto
    with c Cons.prems Cons.IH [of "t + duration u" "cur @ [u]"] show ?thesis by simp
  qed
qed

lemma chunks_within_length:
  assumes "\<forall>u \<in> set units. 0 \<le> duration u"
    and "c \<in> set (generate_chunked_videos chunk_len units)" and "2 \<le> length c"
  shows "sum_list (map duration c) \<le> chunk_len"
  using chunk_runs_bound [of units 0 "[]" chunk_len c] assms
  by (simp add: generate_chunked_videos_def)

text \<open>
  Claim C4. For every sequence of word units and every chunk length, the chunks are
  contiguous runs of the sequence: concatenated in emission order they give the
  sequence back, no chunk is empty, and the chunk sizes add up to the number of units,
  so every unit is in exactly one chunk and none is split between two.
\<close>

theorem chunks_partition_units:
  "concat (generate_chunked_videos chunk_len units) = units \<and>
   [] \<notin> set (generate_chunked_videos chunk_len units) \<and>
   sum_list (map length (generate_chunked_videos chunk_len units)) = length units"
proof -
  have c: "concat (generate_chunked_videos chunk_len units) = units"
    by (simp add: generate_chunked_videos_def chunk_runs_concat)
  have n: "[] \<notin> set (generate_chunked_videos chunk_len units)"
    using chunk_runs_nonempty [of "[]" chunk_len "[]" 0 units]
    by (auto simp: generate_chunked_videos_def)
  have "length (concat (generate_chunked_videos chunk_len units)) = length units"
    by (simp only: c)
  then have "sum_list (map length (generate_chunked_videos chunk_len units)) = length units"
    by (simp add: length_concat)
  with c n show ?thesis by blast
qed

section \<open>Rejected submissions\<close>

text \<open>An accepted submission draws an identifier and creates a pending record.\<close>

lemma accepted_submission_creates_record:
  assumes "str_lower (path_suffix (str_or (uf_filename file) [])) \<in> ALLOWED_EXTENSIONS"
    and "parse_params json_loads ps = Inr video_params"
  shows "\<exists>job st'. routes_create_job uuid4 json_loads now file ps st
            = (Inr (job, take 8 (uuid4 (uuid_draws st))), st') \<and>
          uuid_draws st' = Suc (uuid_draws st) \<and>
          map_option status (jobs st' (take 8 (uuid4 (uuid_draws st)))) = Some PENDING"
  using assms
  by (simp add: routes_create_job_def validate_file_def Let_def create_job_def save_upload_def
        initialize_job_def with_lock_def split: prod.splits)

text \<open>
  Claim C5. A submission whose file extension is not one of the allowed ones, or whose
  parameters do not parse or do not validate, is answered with the HTTP error 400 and
  the storage is the same as before: no identifier has been drawn, no upload written,
  no record created.
\<close>

theorem rejected_submission_changes_nothing:
  assumes "str_lower (path_suffix (str_or (uf_filename file) [])) \<notin> ALLOWED_EXTENSIONS
           \<or> (\<exists>e. parse_params json_loads ps = Inl e)"
  shows "\<exists>msg. routes_create_job uuid4 json_loads now file ps st = (Inl (HTTPException 400 msg), st)"
proof (cases "str_lower (path_suffix (str_or (uf_filename file) [])) \<in> ALLOWED_EXTENSIONS")
  case False
  then show ?thesis
    by (simp add: routes_create_job_def validate_file_def Let_def)
next
  case True
  with assms obtain e where "parse_params json_loads ps = Inl e" by blast
  with True show ?thesis
    by (simp add: routes_create_job_def validate_file_def Let_def)
qed

theorem rejected_submission_changes_nothing_witness:
  "str_lower (path_suffix (str_or (uf_filename \<lparr>uf_filename = Some ''notes.docx'', uf_content = ''abc''\<rparr>) []))
      \<notin> ALLOWED_EXTENSIONS \<and>
   routes_create_job (\<lambda>n. ''0a1b2c3d-0000'') example_json_loads ''2026-01-01T00:00:00''
       \<lparr>uf_filename = Some ''notes.docx'', uf_content = ''abc''\<rparr> ''{}'' empty_storage
     = (Inl (HTTPException 400 ''Invalid file type .docx''), empty_storage) \<and>
   parse_params example_json_loads ''{start_wpm: 10}'' = Inl ''validation error'' \<and>
   routes_create_job (\<lambda>n. ''0a1b2c3d-0000'') example_json_loads ''2026-01-01T00:00:00''
       \<lparr>uf_filename = Some ''notes.txt'', uf_content = ''abc''\<rparr> ''{start_wpm: 10}'' empty_storage
     = (Inl (HTTPException 400 ''Invalid parameters: validation error''), empty_storage)"
  using rejected_submission_changes_nothing
          [of "\<lparr>uf_filename = Some ''notes.docx'', uf_content = ''abc''\<rparr>" example_json_loads "''{}''"
              "\<lambda>n. ''0a1b2c3d-0000''" "''2026-01-01T00:00:00''" empty_storage]
        rejected_submission_changes_nothing
          [of "\<lparr>uf_filename = Some ''notes.txt'', uf_content = ''abc''\<rparr>" example_json_loads "''{start_wpm: 10}''"
              "\<lambda>n. ''0a1b2c3d-0000''" "''2026-01-01T00:00:00''" empty_storage]
  by (simp add: routes_create_job_def validate_file_def str_or_def path_suffix_def path_name_def
        str_lower_def lower_char_def ALLOWED_EXTENSIONS_def parse_params_def example_json_loads_def
        VideoParams_validate_def no_params_def opt_in_bounds_def in_bounds_def parse_ramp_style_def
        or_default_def is_hex_color_def is_hex_digit_def)

section \<open>The ramp length\<close>

lemma py_int_tenth: "0 \<le> n \<Longrightarrow> py_int (real_of_int n * 0.1) = n div 10"
proof -
  assume "0 \<le> n"
  then have "py_int (real_of_int n * 0.1) = \<lfloor>real_of_int n / real_of_int 10\<rfloor>"
    by (simp add: py_int_def)
  also have "\<dots> = n div 10" by (rule floor_divide_of_int_eq)
  finally show ?thesis .
qed

text \<open>
  Claim C6, as the code has it. For \<open>total_words \<ge> 2\<close>, an absent \<open>ramp_words\<close> is
  replaced by \<open>max(20, int(total_words * 0.1))\<close>, the tenth rounded down (not to the
  nearest integer), and the given or defaulted value is then cut to \<open>total_words\<close>:
  a value above \<open>total_words\<close> becomes \<open>total_words\<close>, a value up to it is kept.
  The schedule for an absent \<open>ramp_words\<close> is the schedule for that default, and the
  schedule for a value above \<open>total_words\<close> is the schedule for \<open>total_words\<close>.
\<close>

theorem ramp_words_default_and_clamp:
  assumes "2 \<le> n"
  shows "ramp_words_used n None = min (max 20 (n div 10)) n \<and>
         (\<forall>r. n < r \<longrightarrow> ramp_words_used n (Some r) = n) \<and>
         (\<forall>r. r \<le> n \<longrightarrow> ramp_words_used n (Some r) = r) \<and>
         create_wpm_schedule s p n None style
           = create_wpm_schedule s p n (Some (max 20 (n div 10))) style \<and>
         (\<forall>r. n < r \<longrightarrow> create_wpm_schedule s p n (Some r) style
                          = create_wpm_schedule s p n (Some n) style)"
proof -
  from assms have "0 \<le> n" by simp
  then have d: "py_int (real_of_int n * 0.1) = n div 10" by (rule py_int_tenth)
  have a: "ramp_words_used n None = min (max 20 (n div 10)) n"
    using d by (simp add: ramp_words_used_def)
  have b: "ramp_words_used n (Some r) = min r n" for r
    by (simp add: ramp_words_used_def)
  from a b show ?thesis
    by (simp add: create_wpm_schedule_def)
qed

theorem ramp_words_default_and_clamp_witness:
  "(2::int) \<le> 206 \<and> ramp_words_used 206 None = 20 \<and> ramp_words_used 206 (Some 500) = 206"
  using ramp_words_default_and_clamp [of 206] by simp

text \<open>
  The claim as stated fails at 206 words: a tenth is 20.6, which rounds to 21, and the
  code uses 20.
\<close>

theorem ramp_words_round_counterexample:
  "ramp_words_used 206 None = 20 \<and> spec_ramp_words 206 = 21 \<and>
   ramp_words_used 206 None \<noteq> spec_ramp_words 206"
  by (simp add: ramp_words_used_def py_int_def spec_ramp_words_def round_def)

section \<open>The stepped ramp\<close>

lemma length_range: "length (map f [0..n - 1]) = nat n"
  by simp







section \<open>Shape of the schedule\<close>








section \<open>Life cycle of a job\<close>

lemma status_of_simps:
  "status_of jid st = (case jobs st jid of None \<Rightarrow> None | Some d \<Rightarrow> Some (status d))"
  by (simp add: status_of_def split: option.splits)

lemma jobs_update_job:
  "jobs (snd (update_job jid ups st)) jid = map_option (dict_update ups) (jobs st jid)"
  by (simp add: update_job_def with_lock_def Let_def split: option.splits)

lemma jobs_get_job: "jobs (snd (get_job j st)) = jobs st"
  by (simp add: get_job_def with_lock_def split: option.splits)

lemma jobs_get_job_data: "jobs (snd (get_job_data j st)) = jobs st"
  by (simp add: get_job_data_def with_lock_def split: option.splits)

lemma fst_get_job_None: "fst (get_job jid st) = None \<longleftrightarrow> jobs st jid = None"
  by (simp add: get_job_def split: option.splits)

lemma fst_get_job_data_None: "fst (get_job_data jid st) = None \<longleftrightarrow> jobs st jid = None"
  by (simp add: get_job_data_def split: option.splits)

lemma jobs_delete_job:
  "jobs (snd (delete_job j st)) jid = (if j = jid then None else jobs st jid)"
  by (simp add: delete_job_def split: option.splits)

lemma worker_step_inv:
  assumes "worker_inv jid (pc, st)"
  shows "worker_inv jid (worker_step sp env jid (pc, st)) \<and>
         lifecycle_move (status_of jid st) (status_of jid (snd (worker_step sp env jid (pc, st))))"
proof (cases "jobs st jid")
  case None
  then show ?thesis
    by (cases pc)
       (simp_all add: worker_inv_def status_of_simps get_job_def get_job_data_def update_job_def
          Let_def split: sum.splits option.splits)
next
  case (Some d)
  with assms have r: "record_at pc d" by (simp add: worker_inv_def)
  show ?thesis
  proof (cases pc)
    case At_get_job
    with Some r show ?thesis
      by (simp add: worker_inv_def status_of_simps get_job_def with_lock_def)
  next
    case (At_mark_processing job)
    with Some r show ?thesis
      by (simp add: worker_inv_def status_of_simps jobs_update_job dict_update_def)
  next
    case (At_get_job_data job)
    with Some r show ?thesis
      by (simp add: worker_inv_def status_of_simps get_job_data_def with_lock_def split: sum.splits)
  next
    case (At_report_words job body)
    with Some r show ?thesis
      by (simp add: worker_inv_def status_of_simps jobs_update_job dict_update_def Let_def)
  next
    case (At_report_generating job)
    with Some r show ?thesis
      by (simp add: worker_inv_def status_of_simps jobs_update_job dict_update_def Let_def
            split: option.splits)
  next
    case (At_mark_completed files)
    with Some r show ?thesis
      by (simp add: worker_inv_def status_of_simps jobs_update_job dict_update_def)
  next
    case (At_mark_failed e)
    with Some r show ?thesis
      by (simp add: worker_inv_def status_of_simps jobs_update_job dict_update_def)
  next
    case Finished
    with Some r show ?thesis
      by (auto simp add: worker_inv_def status_of_simps)
  qed
qed

lemma system_step_inv:
  assumes "worker_inv jid c"
  shows "worker_inv jid (system_step sp env jid e c) \<and>
         lifecycle_move (status_of jid (snd c)) (status_of jid (snd (system_step sp env jid e c)))"
proof (cases c)
  case (Pair pc st)
  show ?thesis
  proof (cases e)
    case Worker_step
    with Pair assms worker_step_inv [of jid pc st sp env] show ?thesis by simp
  next
    case (Read_job j)
    with Pair assms show ?thesis
      by (cases "jobs st jid")
         (auto simp: worker_inv_def status_of_simps jobs_get_job)
  next
    case (Delete_job j)
    with Pair assms show ?thesis
      by (cases "jobs st jid")
         (auto simp: worker_inv_def status_of_simps jobs_delete_job)
  qed
qed


lemma run_hd: "run sp env jid evs c ! 0 = c"
  by (cases evs) simp_all

lemma run_length: "length (run sp env jid evs c) = Suc (length evs)"
  by (induction evs arbitrary: c) simp_all

lemma run_inv:
  "worker_inv jid c \<Longrightarrow> k < length (run sp env jid evs c) \<Longrightarrow>
   worker_inv jid (run sp env jid evs c ! k)"
proof (induction evs arbitrary: c k)
  case Nil
  then show ?case by simp
next
  case (Cons e es)
  show ?case
  proof (cases k)
    case 0
    with Cons.prems show ?thesis by simp
  next
    case (Suc k')
    from Cons.prems(1) have "worker_inv jid (system_step sp env jid e c)"
      using system_step_inv by blast
    moreover from Cons.prems(2) Suc have "k' < length (run sp env jid es (system_step sp env jid e c))"
      by simp
    ultimately have "worker_inv jid (run sp env jid es (system_step sp env jid e c) ! k')"
      by (rule Cons.IH)
    with Suc show ?thesis by simp
  qed
qed

lemma run_moves:
  "worker_inv jid c \<Longrightarrow> Suc k < length (run sp env jid evs c) \<Longrightarrow>
   lifecycle_move (status_of jid (snd (run sp env jid evs c ! k)))
     (status_of jid (snd (run sp env jid evs c ! Suc k)))"
proof (induction evs arbitrary: c k)
  case Nil
  then show ?case by simp
next
  case (Cons e es)
  let ?c' = "system_step sp env jid e c"
  from Cons.prems(1) have inv': "worker_inv jid ?c'"
    and mv: "lifecycle_move (status_of jid (snd c)) (status_of jid (snd ?c'))"
    using system_step_inv by blast+
  show ?case
  proof (cases k)
    case 0
    with mv show ?thesis by (simp add: run_hd)
  next
    case (Suc k')
    with Cons.prems(2) have "Suc k' < length (run sp env jid es ?c')" by simp
    with inv' have "lifecycle_move (status_of jid (snd (run sp env jid es ?c' ! k')))
        (status_of jid (snd (run sp env jid es ?c' ! Suc k')))"
      by (rule Cons.IH)
    with Suc show ?thesis by simp
  qed
qed

lemma move_to_completed:
  "lifecycle_move a (Some COMPLETED) \<Longrightarrow> a = Some COMPLETED \<or> a = Some PROCESSING"
  by (cases a; cases "the a") auto

lemma run_completed:
  "worker_inv jid c \<Longrightarrow> k < length (run sp env jid evs c) \<Longrightarrow>
   status_of jid (snd (run sp env jid evs c ! k)) = Some COMPLETED \<Longrightarrow>
   (\<exists>j<k. status_of jid (snd (run sp env jid evs c ! j)) = Some PROCESSING) \<or>
   status_of jid (snd c) = Some COMPLETED"
proof (induction evs arbitrary: c k)
  case Nil
  then show ?case by simp
next
  case (Cons e es)
  let ?c' = "system_step sp env jid e c"
  from Cons.prems(1) have inv': "worker_inv jid ?c'"
    and mv: "lifecycle_move (status_of jid (snd c)) (status_of jid (snd ?c'))"
    using system_step_inv by blast+
  show ?case
  proof (cases k)
    case 0
    with Cons.prems(3) show ?thesis by simp
  next
    case (Suc k')
    with Cons.prems have k': "k' < length (run sp env jid es ?c')"
      and fin: "status_of jid (snd (run sp env jid es ?c' ! k')) = Some COMPLETED"
      by simp_all
    from Cons.IH [OF inv' k' fin] show ?thesis
    proof
      assume "\<exists>j<k'. status_of jid (snd (run sp env jid es ?c' ! j)) = Some PROCESSING"
      then obtain j where "j < k'"
        and "status_of jid (snd (run sp env jid es ?c' ! j)) = Some PROCESSING" by blast
      then have "Suc j < k \<and> status_of jid (snd (run sp env jid (e # es) c ! Suc j)) = Some PROCESSING"
        using Suc by simp
      then show ?thesis by blast
    next
      assume "status_of jid (snd ?c') = Some COMPLETED"
      with mv have "status_of jid (snd c) = Some COMPLETED \<or> status_of jid (snd c) = Some PROCESSING"
        by (simp add: move_to_completed)
      then show ?thesis
      proof
        assume "status_of jid (snd c) = Some COMPLETED"
        then show ?thesis by simp
      next
        assume "status_of jid (snd c) = Some PROCESSING"
        then have "0 < k \<and> status_of jid (snd (run sp env jid (e # es) c ! 0)) = Some PROCESSING"
          using Suc by simp
        then show ?thesis by blast
      qed
    qed
  qed
qed

text \<open>The undisturbed worker is the run of seven worker steps.\<close>

lemma process_video_job_run:
  "process_video_job sp env jid st =
     snd (last (run sp env jid
       [Worker_step, Worker_step, Worker_step, Worker_step, Worker_step, Worker_step, Worker_step]
       (At_get_job, st)))"
  by (simp add: process_video_job_def numeral_eq_Suc del: worker_step.simps)

lemma inv_failed:
  assumes "worker_inv jid c" and "jobs (snd c) jid = Some d" and "status d = FAILED"
  shows "error_message d \<noteq> None \<and> completed_at d \<noteq> None"
  using assms by (cases c; cases "fst c") (auto simp: worker_inv_def)

lemma initial_inv:
  "worker_inv jid (At_get_job, snd (initialize_job jid fname upath ps now st0))"
  by (simp add: worker_inv_def initialize_job_def Let_def)

lemma initial_status:
  "status_of jid (snd (initialize_job jid fname upath ps now st0)) = Some PENDING"
  by (simp add: status_of_def initialize_job_def Let_def)

text \<open>
  Claim C2. Take a job whose record \<^verbatim>\<open>initialize_job\<close> has created and that one worker
  drives, while reads and deletions from outside may come between the worker's calls.
  In every run: the record starts as PENDING; from one configuration to the next its
  status stays, or moves along \<open>PENDING \<rightarrow> PROCESSING\<close>, \<open>PROCESSING \<rightarrow> COMPLETED\<close> or
  \<open>PROCESSING \<rightarrow> FAILED\<close>, or the record is deleted (and then stays absent); whenever
  the status is COMPLETED, it was PROCESSING at an earlier point of the run; and
  whenever the status is FAILED, \<open>error_message\<close> and \<open>completed_at\<close> are set.
\<close>

theorem job_lifecycle:
  "let tr = job_trace sp env jid fname upath ps now st0 evs
   in status_of jid (snd (tr ! 0)) = Some PENDING \<and>
      (\<forall>k. Suc k < length tr \<longrightarrow>
         lifecycle_move (status_of jid (snd (tr ! k))) (status_of jid (snd (tr ! Suc k)))) \<and>
      (\<forall>k < length tr. status_of jid (snd (tr ! k)) = Some COMPLETED \<longrightarrow>
         (\<exists>j < k. status_of jid (snd (tr ! j)) = Some PROCESSING)) \<and>
      (\<forall>k < length tr. \<forall>d. jobs (snd (tr ! k)) jid = Some d \<and> status d = FAILED \<longrightarrow>
         error_message d \<noteq> None \<and> completed_at d \<noteq> None)"
proof -
  let ?c = "(At_get_job, snd (initialize_job jid fname upath ps now st0))"
  let ?tr = "run sp env jid evs ?c"
  have inv: "worker_inv jid ?c" by (rule initial_inv)
  have p0: "status_of jid (snd (?tr ! 0)) = Some PENDING"
    by (simp add: run_hd initial_status)
  have mv: "\<forall>k. Suc k < length ?tr \<longrightarrow>
      lifecycle_move (status_of jid (snd (?tr ! k))) (status_of jid (snd (?tr ! Suc k)))"
    using run_moves [OF inv] by blast
  have cp: "\<forall>k < length ?tr. status_of jid (snd (?tr ! k)) = Some COMPLETED \<longrightarrow>
      (\<exists>j < k. status_of jid (snd (?tr ! j)) = Some PROCESSING)"
  proof (intro allI impI)
    fix k assume "k < length ?tr" and "status_of jid (snd (?tr ! k)) = Some COMPLETED"
    with run_completed [OF inv] have
      "(\<exists>j<k. status_of jid (snd (?tr ! j)) = Some PROCESSING) \<or> status_of jid (snd ?c) = Some COMPLETED"
      by blast
    then show "\<exists>j < k. status_of jid (snd (?tr ! j)) = Some PROCESSING"
      by (simp add: initial_status)
  qed
  have fl: "\<forall>k < length ?tr. \<forall>d. jobs (snd (?tr ! k)) jid = Some d \<and> status d = FAILED \<longrightarrow>
      error_message d \<noteq> None \<and> completed_at d \<noteq> None"
    using run_inv [OF inv] inv_failed by blast
  from p0 mv cp fl show ?thesis
    unfolding job_trace_def Let_def by (intro conjI)
qed


theorem job_lifecycle_witness:
  "status_of ''0a1b2c3d''
     (snd (job_trace ascii_isspace example_env ''0a1b2c3d'' ''a.txt''
             ''storage/uploads/0a1b2c3d_a.txt'' example_params ''2026-01-01T00:00:00''
             empty_storage
             [Worker_step, Worker_step, Worker_step, Worker_step, Worker_step, Worker_step,
              Worker_step] ! 7))
     = Some COMPLETED \<and>
   status_of ''0a1b2c3d''
     (snd (job_trace ascii_isspace example_env ''0a1b2c3d'' ''a.txt''
             ''storage/uploads/0a1b2c3d_a.txt'' example_params ''2026-01-01T00:00:00''
             empty_storage
             [Worker_step, Worker_step, Worker_step, Worker_step, Worker_step, Worker_step,
              Worker_step] ! 2))
     = Some PROCESSING"
  using job_lifecycle
          [of ascii_isspace example_env "''0a1b2c3d''" "''a.txt''"
              "''storage/uploads/0a1b2c3d_a.txt''" example_params "''2026-01-01T00:00:00''"
              empty_storage
              "[Worker_step, Worker_step, Worker_step, Worker_step, Worker_step, Worker_step,
                Worker_step]"]
  by (simp add: job_trace_def status_of_def initialize_job_def get_job_def get_job_data_def
        update_job_def with_lock_def dict_update_def example_env_def example_params_def
        empty_storage_def Let_def)

text \<open>A run in which text extraction fails: the record ends as FAILED with the message.\<close>

lemma failed_run_example:
  "map_option (\<lambda>d. (status d, error_message d, completed_at d))
     (jobs (snd (job_trace ascii_isspace (example_env\<lparr>extract_result := Inl ''unreadable''\<rparr>)
                   ''0a1b2c3d'' ''a.txt'' ''storage/uploads/0a1b2c3d_a.txt'' example_params
                   ''2026-01-01T00:00:00'' empty_storage
                   [Worker_step, Worker_step, Worker_step, Worker_step] ! 4)) ''0a1b2c3d'')
     = Some (FAILED, Some ''unreadable'', Some ''2026-01-01T00:00:09'')"
  by (simp add: job_trace_def initialize_job_def get_job_def get_job_data_def
        update_job_def with_lock_def dict_update_def example_env_def example_params_def
        empty_storage_def Let_def)

end
